theory Spec2Isabelle
  imports Complex_Main
begin

section \<open>Audio tracks, utterances and time\<close>

text \<open>
  The pipeline (\<^verbatim>\<open>video_translation_pipeline.py\<close>, \<^verbatim>\<open>video_processor.py\<close>) handles audio
  through pydub's \<^verbatim>\<open>AudioSegment\<close>, whose \<^verbatim>\<open>len\<close>, slices and \<^verbatim>\<open>silent(duration=...)\<close> all
  count milliseconds. A track is modelled at that resolution: one sample value per
  millisecond, silence being the value 0. \<^verbatim>\<open>a + b\<close> on tracks is list append.
\<close>

type_synonym audio = "int list"

definition silent :: "int \<Rightarrow> audio" where
  "silent duration = replicate (nat duration) 0"

text \<open>
  pydub's \<^verbatim>\<open>audio[s:e]\<close>: both positions are first clamped to \<^verbatim>\<open>len(audio)\<close>. Every call site
  of the repository passes non-negative positions; the model covers those.
\<close>

definition aslice :: "audio \<Rightarrow> int \<Rightarrow> int \<Rightarrow> audio" where
  "aslice a s e =
     (let n = int (length a); s' = min s n; e' = min e n
      in take (nat (e' - s')) (drop (nat s') a))"

text \<open>
  A Whisper segment \<^verbatim>\<open>{"start": ..., "end": ..., "text": ...}\<close>, times in seconds, the text
  a list of Unicode code points. Python's
  floats are modelled by rationals; comparisons are exact on both, and the rounding of
  float arithmetic is left out. Times and durations are non-negative.
\<close>

type_synonym pystr = "nat list"

record utterance =
  seg_start :: rat
  seg_end :: rat
  seg_text :: pystr

text \<open>\<^verbatim>\<open>int(x * 1000)\<close>: Python's \<^verbatim>\<open>int\<close> truncates towards zero.\<close>

definition to_ms :: "rat \<Rightarrow> int" where
  "to_ms x = (if 0 \<le> x then \<lfloor>x * 1000\<rfloor> else \<lceil>x * 1000\<rceil>)"

section \<open>Extraction of a window's audio\<close>

text \<open>
  \<^verbatim>\<open>_extract_audio_segment(audio_path, start_time, end_time, output_path)\<close>. The source file is
  \<open>None\<close> when it does not exist. The result is the track written to \<^verbatim>\<open>output_path\<close>; \<open>None\<close>
  stands for \<^verbatim>\<open>return False\<close>, which every such path reaches before the export.
\<close>

definition extract_audio_segment :: "audio option \<Rightarrow> rat \<Rightarrow> rat \<Rightarrow> audio option" where
  "extract_audio_segment src start_time end_time =
     (case src of
        None \<Rightarrow> None
      | Some audio \<Rightarrow>
          if length audio = 0 then None
          else
            let start_ms = to_ms start_time;
                end_ms = to_ms end_time
            in if start_ms \<ge> int (length audio) then None
               else
                 let end_ms' = (if end_ms > int (length audio) then int (length audio) else end_ms);
                     segment = aslice audio start_ms end_ms'
                 in if length segment = 0 then None else Some segment)"

section \<open>Selection of a window's utterances\<close>

text \<open>
  The filter at the head of \<^verbatim>\<open>_process_segment_with_correct_timing\<close>: a segment is relevant
  to the window when \<^verbatim>\<open>seg_start < end_time and seg_end > start_time\<close>.
\<close>

definition relevant_segments :: "utterance list \<Rightarrow> rat \<Rightarrow> rat \<Rightarrow> utterance list" where
  "relevant_segments all_segments start_time end_time =
     filter (\<lambda>seg. seg_start seg < end_time \<and> seg_end seg > start_time) all_segments"

text \<open>
  The window schedule of \<^verbatim>\<open>translate_long_video_with_optimization\<close>: the band table for
  \<^verbatim>\<open>segment_duration\<close>, \<^verbatim>\<open>estimated_segments = int(total_duration / segment_duration) + 1\<close>,
  and the loop header with its \<^verbatim>\<open>break\<close> once \<^verbatim>\<open>start_time >= total_duration\<close>.
\<close>

definition segment_duration :: "rat \<Rightarrow> rat" where
  "segment_duration total_duration =
     (let total_minutes = total_duration / 60
      in if total_minutes \<le> 10 then 30
         else if total_minutes \<le> 30 then 45
         else if total_minutes \<le> 60 then 60
         else 90)"

definition estimated_segments :: "rat \<Rightarrow> nat" where
  "estimated_segments total_duration =
     nat (\<lfloor>total_duration / segment_duration total_duration\<rfloor> + 1)"

definition windows :: "rat \<Rightarrow> (rat \<times> rat) list" where
  "windows total_duration =
     map (\<lambda>i. (of_nat i * segment_duration total_duration,
               min ((of_nat i + 1) * segment_duration total_duration) total_duration))
       (takeWhile (\<lambda>i. of_nat i * segment_duration total_duration < total_duration)
          [0..<estimated_segments total_duration])"

section \<open>Text helpers\<close>

text \<open>
  A Python \<^verbatim>\<open>str\<close> is the list of its Unicode code points. \<open>is_space\<close> is the set of
  characters for which \<^verbatim>\<open>str.isspace()\<close> holds, which is what \<^verbatim>\<open>str.strip()\<close> removes and what
  \<^verbatim>\<open>\s\<close> matches in a regular expression on a \<^verbatim>\<open>str\<close>: U+0009 to U+000D, U+001C to U+0020,
  U+0085, U+00A0, U+1680, U+2000 to U+200A, U+2028, U+2029, U+202F, U+205F and U+3000.
  \<open>ends_terminal\<close> is a match of \<^verbatim>\<open>[\.\!\?...:]\s*$\<close>, the fourth member of the class being
  the horizontal ellipsis U+2026: after any trailing whitespace, the last character is a
  full stop (46), an exclamation mark (33), a question mark (63), the ellipsis (8230) or a
  colon (58).
\<close>

definition is_space :: "nat \<Rightarrow> bool" where
  "is_space c =
     ((9 \<le> c \<and> c \<le> 13) \<or> (28 \<le> c \<and> c \<le> 32) \<or> c = 133 \<or> c = 160 \<or> c = 5760 \<or>
      (8192 \<le> c \<and> c \<le> 8202) \<or> c = 8232 \<or> c = 8233 \<or> c = 8239 \<or> c = 8287 \<or>
      c = 12288)"

definition strip :: "pystr \<Rightarrow> pystr" where
  "strip s = rev (dropWhile is_space (rev (dropWhile is_space s)))"

definition ends_terminal :: "pystr \<Rightarrow> bool" where
  "ends_terminal text_en =
     (case dropWhile is_space (rev text_en) of
        [] \<Rightarrow> False
      | c # r \<Rightarrow> c = 46 \<or> c = 33 \<or> c = 63 \<or> c = 8230 \<or> c = 58)"

section \<open>Fitting one clip to a duration\<close>

text \<open>
  \<^verbatim>\<open>_add_pauses_between_words\<close>. The numpy energy analysis (smoothed energy below 15 percent
  of its peak) is floating point and is taken as given: \<open>quiet_regions\<close> is its result, one
  flag per sample. The scan for the bounds of the quiet runs, the rebuilding of the clip
  and the final pad are the code's. The bounds are sample indices, and the code uses them
  as millisecond positions in its slices.
\<close>

fun quiet_scan :: "bool list \<Rightarrow> nat \<Rightarrow> nat list \<times> nat list \<times> bool \<Rightarrow> nat list \<times> nat list \<times> bool" where
  "quiet_scan [] i acc = acc"
| "quiet_scan (is_quiet # rest) i (quiet_starts, quiet_ends, in_quiet) =
     quiet_scan rest (Suc i)
       (if is_quiet \<and> \<not> in_quiet then (quiet_starts @ [i], quiet_ends, True)
        else if \<not> is_quiet \<and> in_quiet then (quiet_starts, quiet_ends @ [i], False)
        else (quiet_starts, quiet_ends, in_quiet))"

definition quiet_bounds :: "bool list \<Rightarrow> nat list \<times> nat list" where
  "quiet_bounds quiet_regions =
     (case quiet_scan quiet_regions 0 ([], [], False) of
        (quiet_starts, quiet_ends, in_quiet) \<Rightarrow>
          (quiet_starts,
           if in_quiet then quiet_ends @ [length quiet_regions] else quiet_ends))"

fun insert_pauses :: "audio \<Rightarrow> int \<Rightarrow> (nat \<times> nat) list \<Rightarrow> audio \<times> nat \<Rightarrow> audio \<times> nat" where
  "insert_pauses audio avg_pause_length [] acc = acc"
| "insert_pauses audio avg_pause_length ((start, end') # rest) (new_audio, last_end) =
     (let new1 = (if start > last_end
                  then new_audio @ aslice audio (int last_end) (int start)
                  else new_audio);
          pause_duration = min (int end' - int start + avg_pause_length) 200
      in insert_pauses audio avg_pause_length rest (new1 @ silent pause_duration, end'))"

definition add_pauses_between_words :: "bool list \<Rightarrow> audio \<Rightarrow> int \<Rightarrow> audio option" where
  "add_pauses_between_words quiet_regions audio target_duration =
     (let current_duration = int (length audio);
          additional_time = target_duration - current_duration
      in if additional_time < 50 then Some audio
         else
           (case quiet_bounds quiet_regions of
              (quiet_starts, quiet_ends) \<Rightarrow>
                if quiet_starts \<noteq> [] \<and> quiet_ends \<noteq> [] then
                  (let avg_pause_length =
                         max 30 (min (additional_time div int (length quiet_starts)) 150)
                   in case insert_pauses audio avg_pause_length (zip quiet_starts quiet_ends) ([], 0) of
                        (new_audio, last_end) \<Rightarrow>
                          (let new2 = (if int last_end < int (length audio)
                                       then new_audio @ aslice audio (int last_end) (int (length audio))
                                       else new_audio);
                               new3 = (if int (length new2) < target_duration
                                       then new2 @ silent (target_duration - int (length new2))
                                       else new2)
                           in Some new3))
                else Some (audio @ silent (target_duration - current_duration))))"

text \<open>
  \<^verbatim>\<open>_stretch_wav_to_duration\<close>: \<open>None\<close> is \<^verbatim>\<open>return False\<close> (nothing exported), \<open>Some\<close> the
  exported clip. The input file is readable and the export succeeds, so the \<^verbatim>\<open>except\<close>
  branches, which export the clip unchanged or return \<^verbatim>\<open>False\<close>, are not entered.
\<close>

definition stretch_wav_to_duration :: "bool list \<Rightarrow> audio \<Rightarrow> int \<Rightarrow> audio option" where
  "stretch_wav_to_duration quiet_regions seg target_ms =
     (let cur_ms = int (length seg)
      in if cur_ms = 0 then None
         else if \<bar>cur_ms - target_ms\<bar> \<le> 40 then Some seg
         else if cur_ms < target_ms then add_pauses_between_words quiet_regions seg target_ms
         else Some seg)"

section \<open>Track assembly: prosody and the duration lock\<close>

text \<open>
  \<^verbatim>\<open>video_processor._apply_prosody_to_audio\<close>. \<open>prosody_info\<close> is \<open>None\<close> for an empty
  dictionary; \<open>nonsilent_ranges\<close> are pydub's millisecond ranges; \<open>probed_ms\<close> is the
  duration probed from the video, \<open>None\<close> when no video path is given or the probe fails.
\<close>

record prosody =
  duration :: rat
  nonsilent_ranges :: "(int \<times> int) list"

fun total_pause_time :: "(int \<times> int) list \<Rightarrow> int" where
  "total_pause_time (r1 # r2 # rest) =
     (let pause_duration = fst r2 - snd r1
      in (if pause_duration > 50 then pause_duration else 0) + total_pause_time (r2 # rest))"
| "total_pause_time rs = 0"

definition force_length :: "int \<Rightarrow> audio \<Rightarrow> audio" where
  "force_length original_ms synthesized_audio =
     (if original_ms \<noteq> 0 \<and> original_ms > 0 then
        (let cur_ms = int (length synthesized_audio)
         in if cur_ms < original_ms
            then synthesized_audio @ silent (original_ms - cur_ms)
            else if cur_ms > original_ms + 50
            then aslice synthesized_audio 0 original_ms
            else synthesized_audio)
      else synthesized_audio)"

definition target_ms_of :: "prosody \<Rightarrow> int option \<Rightarrow> int" where
  "target_ms_of p probed_ms =
     (case probed_ms of
        None \<Rightarrow> to_ms (duration p)
      | Some v \<Rightarrow> if v \<noteq> 0 then v else to_ms (duration p))"

definition add_prosody_pauses :: "(int \<times> int) list \<Rightarrow> audio \<Rightarrow> audio" where
  "add_prosody_pauses ranges synthesized_audio =
     (case ranges of
        [] \<Rightarrow> synthesized_audio
      | r # rs \<Rightarrow>
          (let first_start = fst r;
               a1 = (if first_start > 50 then silent first_start @ synthesized_audio
                     else synthesized_audio)
           in if length ranges > 1 \<and> total_pause_time ranges > 0
              then a1 @ silent (total_pause_time ranges div max 1 (int (length ranges) - 1))
              else a1))"

definition apply_prosody_to_audio :: "audio \<Rightarrow> prosody option \<Rightarrow> int option \<Rightarrow> audio" where
  "apply_prosody_to_audio synthesized_audio prosody_info probed_ms =
     (case prosody_info of
        None \<Rightarrow> synthesized_audio
      | Some p \<Rightarrow>
          force_length (target_ms_of p probed_ms)
            (add_prosody_pauses (nonsilent_ranges p) synthesized_audio))"

section \<open>Alignment loops\<close>

text \<open>
  The collaborators are taken as given: \<open>translate_text_ru_en\<close> returns the empty string
  on failure; the synthesizer is called with the utterance's index (its output file name)
  and the translated text and returns no output, an output file that cannot be read back
  (the \<^verbatim>\<open>except\<close> around \<^verbatim>\<open>AudioSegment.from_wav(part_raw)\<close>), or a clip.
\<close>

datatype tts_result = NoOutput | Unreadable | Clip audio

definition MAX_GAP_MS :: int where "MAX_GAP_MS = 400"
definition CONTINUATION_PAUSE_MS :: int where "CONTINUATION_PAUSE_MS = 120"
definition MAX_PAUSE_MS :: int where "MAX_PAUSE_MS = 2000"

text \<open>
  The loop variables \<^verbatim>\<open>combined\<close>, \<^verbatim>\<open>current_ms\<close> and \<^verbatim>\<open>prev_en_terminal\<close> (read through
  \<^verbatim>\<open>locals().get("prev_en_terminal", True)\<close>, so \<open>True\<close> until first assigned). \<open>placed\<close> is
  a history variable the code does not keep: for every clip appended by
  \<^verbatim>\<open>combined += seg_audio\<close> the position of its first millisecond on the output track and
  the clip.
\<close>

record align_state =
  combined :: audio
  current_ms :: int
  prev_en_terminal :: bool
  placed :: "(nat \<times> audio) list"

definition init_state :: align_state where
  "init_state = \<lparr>combined = silent 0, current_ms = 0, prev_en_terminal = True, placed = []\<rparr>"

definition append_silence :: "int \<Rightarrow> align_state \<Rightarrow> align_state" where
  "append_silence d st = st\<lparr>combined := combined st @ silent d\<rparr>"

definition append_clip :: "audio \<Rightarrow> align_state \<Rightarrow> align_state" where
  "append_clip seg_audio st =
     st\<lparr>combined := combined st @ seg_audio,
        placed := placed st @ [(length (combined st), seg_audio)]\<rparr>"

text \<open>
  What the placements are checked against: onsets do not decrease and no clip starts before
  its predecessor has ended (\<open>placements_ok\<close>), and every recorded clip lies on the track at
  its recorded onset (\<open>clips_in_place\<close>).
\<close>

fun placements_ok :: "(nat \<times> audio) list \<Rightarrow> bool" where
  "placements_ok (p1 # p2 # ps) =
     (fst p1 \<le> fst p2 \<and> fst p1 + length (snd p1) \<le> fst p2 \<and> placements_ok (p2 # ps))"
| "placements_ok ps = True"

fun clips_in_place :: "audio \<Rightarrow> (nat \<times> audio) list \<Rightarrow> bool" where
  "clips_in_place track [] = True"
| "clips_in_place track (p # ps) =
     (fst p + length (snd p) \<le> length track \<and>
      take (length (snd p)) (drop (fst p) track) = snd p \<and>
      clips_in_place track ps)"

definition well_placed :: "align_state \<Rightarrow> bool" where
  "well_placed st = (placements_ok (placed st) \<and> clips_in_place (combined st) (placed st))"

definition next_start_of :: "rat \<Rightarrow> utterance list \<Rightarrow> int option" where
  "next_start_of time_offset rest =
     (case rest of [] \<Rightarrow> None | n # ns \<Rightarrow> Some (to_ms (seg_start n + time_offset)))"

text \<open>
  The guard at the head of each loop body, \<^verbatim>\<open>if end_ms <= start_ms or not text_ru: continue\<close>
  (here without a time offset).
\<close>

definition skipped_utterance :: "utterance \<Rightarrow> bool" where
  "skipped_utterance seg =
     (to_ms (seg_end seg) \<le> to_ms (seg_start seg) \<or> strip (seg_text seg) = [])"

subsection \<open>The long-video window processor\<close>

text \<open>One iteration of the loop of \<^verbatim>\<open>_process_segment_with_correct_timing\<close>.\<close>

definition timing_step ::
  "(pystr \<Rightarrow> pystr) \<Rightarrow> (nat \<Rightarrow> pystr \<Rightarrow> tts_result) \<Rightarrow>
   nat \<Rightarrow> utterance \<Rightarrow> int option \<Rightarrow> align_state \<Rightarrow> align_state" where
  "timing_step translate_text_ru_en synthesize idx seg next_start_ms st =
     (let start_ms = to_ms (seg_start seg);
          end_ms = to_ms (seg_end seg);
          text_ru = strip (seg_text seg)
      in if end_ms \<le> start_ms \<or> text_ru = [] then st
         else
           (let text_en = translate_text_ru_en text_ru
            in if text_en = [] then (append_silence (end_ms - start_ms) st)\<lparr>current_ms := end_ms\<rparr>
               else
                 (case synthesize idx text_en of
                    NoOutput \<Rightarrow> (append_silence (end_ms - start_ms) st)\<lparr>current_ms := end_ms\<rparr>
                  | Unreadable \<Rightarrow> st
                  | Clip seg_audio \<Rightarrow>
                      (let en_duration = int (length seg_audio);
                           ru_duration = end_ms - start_ms;
                           st' =
                             (if en_duration \<le> ru_duration then
                                (let actual_start = start_ms;
                                     actual_end = actual_start + en_duration;
                                     st1 = (if actual_start > current_ms st
                                            then append_silence (actual_start - current_ms st) st
                                            else st)
                                 in (append_clip seg_audio st1)\<lparr>current_ms := actual_end\<rparr>)
                              else
                                (let available_gap =
                                       (case next_start_ms of
                                          None \<Rightarrow> 0
                                        | Some n \<Rightarrow> max 0 (n - end_ms));
                                     allowed_ms = ru_duration + min available_gap MAX_GAP_MS
                                 in if en_duration \<le> allowed_ms
                                    then (append_clip seg_audio st)
                                           \<lparr>current_ms := current_ms st + en_duration\<rparr>
                                    else (append_clip seg_audio st)
                                           \<lparr>current_ms := current_ms st + en_duration\<rparr>))
                       in st'\<lparr>prev_en_terminal := ends_terminal text_en\<rparr>))))"

fun timing_loop ::
  "(pystr \<Rightarrow> pystr) \<Rightarrow> (nat \<Rightarrow> pystr \<Rightarrow> tts_result) \<Rightarrow>
   nat \<Rightarrow> utterance list \<Rightarrow> align_state \<Rightarrow> align_state" where
  "timing_loop tr sy idx [] st = st"
| "timing_loop tr sy idx (seg # rest) st =
     timing_loop tr sy (Suc idx) rest (timing_step tr sy idx seg (next_start_of 0 rest) st)"

text \<open>
  \<^verbatim>\<open>_process_segment_with_correct_timing\<close>: the track written to \<^verbatim>\<open>output_path\<close>, or \<open>None\<close>
  for \<^verbatim>\<open>return False\<close>.
\<close>

definition process_segment_with_correct_timing ::
  "(pystr \<Rightarrow> pystr) \<Rightarrow> (nat \<Rightarrow> pystr \<Rightarrow> tts_result) \<Rightarrow>
   utterance list \<Rightarrow> rat \<Rightarrow> rat \<Rightarrow> audio option" where
  "process_segment_with_correct_timing tr sy all_segments start_time end_time =
     (let relevant = relevant_segments all_segments start_time end_time
      in if relevant = [] then Some (silent (to_ms (end_time - start_time)))
         else
           (let st = timing_loop tr sy 0 relevant init_state
            in if length (combined st) = 0 then None else Some (combined st)))"

subsection \<open>The loops that pause before an utterance\<close>

text \<open>
  The pause before a segment, as \<^verbatim>\<open>_process_segment_with_full_functionality\<close> and
  \<^verbatim>\<open>translate_video_with_voice_preservation\<close> both write it.
\<close>

definition pause_before :: "int \<Rightarrow> align_state \<Rightarrow> align_state" where
  "pause_before start_ms st =
     (if start_ms > current_ms st then
        (let gap = start_ms - current_ms st;
             gap1 = (if \<not> prev_en_terminal st then min gap CONTINUATION_PAUSE_MS else gap);
             gap2 = min gap1 MAX_PAUSE_MS
         in (append_silence gap2 st)\<lparr>current_ms := current_ms st + gap2\<rparr>)
      else st)"

text \<open>One iteration of the loop of \<^verbatim>\<open>_process_segment_with_full_functionality\<close>.\<close>

definition full_step ::
  "(pystr \<Rightarrow> pystr) \<Rightarrow> (nat \<Rightarrow> pystr \<Rightarrow> tts_result) \<Rightarrow> rat \<Rightarrow>
   nat \<Rightarrow> utterance \<Rightarrow> int option \<Rightarrow> align_state \<Rightarrow> align_state" where
  "full_step translate_text_ru_en synthesize time_offset idx seg next_start_ms st =
     (let start_ms = to_ms (seg_start seg + time_offset);
          end_ms = to_ms (seg_end seg + time_offset);
          text_ru = strip (seg_text seg)
      in if end_ms \<le> start_ms \<or> text_ru = [] then st
         else
           (let st0 = pause_before start_ms st;
                text_en = translate_text_ru_en text_ru
            in if text_en = [] then st0
               else
                 (case synthesize idx text_en of
                    NoOutput \<Rightarrow> st0
                  | Unreadable \<Rightarrow> st0
                  | Clip seg_audio \<Rightarrow>
                      (let en_duration = int (length seg_audio);
                           ru_duration = end_ms - start_ms;
                           st' =
                             (if en_duration \<le> ru_duration
                              then (append_clip seg_audio st0)
                                     \<lparr>current_ms := current_ms st0 + en_duration\<rparr>
                              else
                                (let available_gap =
                                       (case next_start_ms of
                                          None \<Rightarrow> 0
                                        | Some n \<Rightarrow> max 0 (n - end_ms));
                                     allowed_ms = ru_duration + min available_gap MAX_GAP_MS
                                 in if en_duration \<le> allowed_ms
                                    then (append_clip seg_audio st0)
                                           \<lparr>current_ms := current_ms st0 + en_duration\<rparr>
                                    else (append_clip seg_audio st0)
                                           \<lparr>current_ms := current_ms st0 + en_duration\<rparr>))
                       in st'\<lparr>prev_en_terminal := ends_terminal text_en\<rparr>))))"

fun full_loop ::
  "(pystr \<Rightarrow> pystr) \<Rightarrow> (nat \<Rightarrow> pystr \<Rightarrow> tts_result) \<Rightarrow> rat \<Rightarrow>
   nat \<Rightarrow> utterance list \<Rightarrow> align_state \<Rightarrow> align_state" where
  "full_loop tr sy time_offset idx [] st = st"
| "full_loop tr sy time_offset idx (seg # rest) st =
     full_loop tr sy time_offset (Suc idx) rest
       (full_step tr sy time_offset idx seg (next_start_of time_offset rest) st)"

text \<open>
  One iteration of the loop of \<^verbatim>\<open>translate_video_with_voice_preservation\<close>. \<open>quiet_of\<close> is
  the energy analysis that \<^verbatim>\<open>_stretch_wav_to_duration\<close> would run on the clip. The fitted
  file, which the step has just written, is read back without error.
\<close>

definition voice_step ::
  "(pystr \<Rightarrow> pystr) \<Rightarrow> (nat \<Rightarrow> pystr \<Rightarrow> tts_result) \<Rightarrow> (audio \<Rightarrow> bool list) \<Rightarrow>
   nat \<Rightarrow> utterance \<Rightarrow> int option \<Rightarrow> align_state \<Rightarrow> align_state" where
  "voice_step translate_text_ru_en synthesize quiet_of idx seg next_start_ms st =
     (let start_ms = to_ms (seg_start seg);
          end_ms = to_ms (seg_end seg);
          text_ru = strip (seg_text seg)
      in if end_ms \<le> start_ms \<or> text_ru = [] then st
         else
           (let st0 = pause_before start_ms st;
                text_en = translate_text_ru_en text_ru
            in if text_en = [] then st0
               else
                 (case synthesize idx text_en of
                    NoOutput \<Rightarrow> st0
                  | Unreadable \<Rightarrow> st0
                  | Clip seg_audio \<Rightarrow>
                      (let en_duration = int (length seg_audio);
                           ru_duration = end_ms - start_ms;
                           st' =
                             (if en_duration \<le> ru_duration
                              then (append_clip seg_audio st0)
                                     \<lparr>current_ms := current_ms st0 + en_duration\<rparr>
                              else
                                (let available_gap =
                                       (case next_start_ms of
                                          None \<Rightarrow> 0
                                        | Some n \<Rightarrow> max 0 (n - end_ms));
                                     allowed_ms = ru_duration + available_gap
                                 in if en_duration \<le> allowed_ms
                                    then (append_clip seg_audio st0)
                                           \<lparr>current_ms := current_ms st0 + en_duration\<rparr>
                                    else
                                      (case stretch_wav_to_duration (quiet_of seg_audio)
                                              seg_audio allowed_ms of
                                         Some seg_audio_fit \<Rightarrow>
                                           (append_clip seg_audio_fit st0)
                                             \<lparr>current_ms := current_ms st0 + allowed_ms\<rparr>
                                       | None \<Rightarrow>
                                           (append_clip seg_audio st0)
                                             \<lparr>current_ms := start_ms + en_duration\<rparr>)))
                       in st'\<lparr>prev_en_terminal := ends_terminal text_en\<rparr>))))"

fun voice_loop ::
  "(pystr \<Rightarrow> pystr) \<Rightarrow> (nat \<Rightarrow> pystr \<Rightarrow> tts_result) \<Rightarrow> (audio \<Rightarrow> bool list) \<Rightarrow>
   nat \<Rightarrow> utterance list \<Rightarrow> align_state \<Rightarrow> align_state" where
  "voice_loop tr sy quiet_of idx [] st = st"
| "voice_loop tr sy quiet_of idx (seg # rest) st =
     voice_loop tr sy quiet_of (Suc idx) rest
       (voice_step tr sy quiet_of idx seg (next_start_of 0 rest) st)"

section \<open>The long-video run\<close>

text \<open>
  The body of the window loop of \<^verbatim>\<open>translate_long_video_with_optimization\<close> after its
  \<^verbatim>\<open>break\<close> test: extract the window's audio (\<^verbatim>\<open>continue\<close> on failure), process the
  window, and append its output file to \<^verbatim>\<open>segment_files\<close> on success. A file is modelled
  by the track it holds.
\<close>

definition window_output ::
  "(pystr \<Rightarrow> pystr) \<Rightarrow> (nat \<Rightarrow> pystr \<Rightarrow> tts_result) \<Rightarrow>
   audio \<Rightarrow> utterance list \<Rightarrow> rat \<times> rat \<Rightarrow> audio option" where
  "window_output tr sy orig all_segments w =
     (case extract_audio_segment (Some orig) (fst w) (snd w) of
        None \<Rightarrow> None
      | Some segment_audio \<Rightarrow>
          process_segment_with_correct_timing tr sy all_segments (fst w) (snd w))"

fun run_windows ::
  "(pystr \<Rightarrow> pystr) \<Rightarrow> (nat \<Rightarrow> pystr \<Rightarrow> tts_result) \<Rightarrow>
   audio \<Rightarrow> utterance list \<Rightarrow> (rat \<times> rat) list \<Rightarrow> audio list \<Rightarrow> audio list" where
  "run_windows tr sy orig all_segments [] segment_files = segment_files"
| "run_windows tr sy orig all_segments (w # ws) segment_files =
     run_windows tr sy orig all_segments ws
       (case window_output tr sy orig all_segments w of
          None \<Rightarrow> segment_files
        | Some out \<Rightarrow> segment_files @ [out])"

text \<open>\<^verbatim>\<open>_combine_segments_simple\<close>: every file of the list exists, the run has just written it.\<close>

definition combine_segments_simple :: "audio list \<Rightarrow> audio option" where
  "combine_segments_simple segment_files =
     (let combined = foldl (@) (silent 0) segment_files
      in if length combined = 0 then None else Some combined)"

text \<open>
  Step 9, the bed mix. pydub's gain (\<^verbatim>\<open>orig_seg + bed_gain_db\<close>) and \<^verbatim>\<open>overlay\<close> are
  floating-point library operations and are parameters of the model.
\<close>

definition bed_gain_db :: int where "bed_gain_db = - 24"

definition bed_mix ::
  "(int \<Rightarrow> audio \<Rightarrow> audio) \<Rightarrow> (audio \<Rightarrow> audio \<Rightarrow> audio) \<Rightarrow> audio \<Rightarrow> audio \<Rightarrow> audio" where
  "bed_mix apply_gain overlay orig_seg tts_seg =
     (let orig_seg' =
            (if length orig_seg < length tts_seg
             then orig_seg @ silent (int (length tts_seg) - int (length orig_seg))
             else if length orig_seg > length tts_seg
             then aslice orig_seg 0 (int (length tts_seg))
             else orig_seg);
          bed = apply_gain bed_gain_db orig_seg'
      in overlay bed tts_seg)"

text \<open>
  Steps 5 to 9 of \<^verbatim>\<open>translate_long_video_with_optimization\<close>: the track handed to the
  remuxer, or \<open>None\<close> when the run returns \<^verbatim>\<open>False\<close> before that. \<open>orig\<close> is the audio
  extracted from the video, \<open>segments\<close> the Whisper segments of step 4. The files the run
  has written are read back without error, so the \<^verbatim>\<open>except\<close> around step 9 is not entered.
\<close>

definition translate_long_video_with_optimization ::
  "(pystr \<Rightarrow> pystr) \<Rightarrow> (nat \<Rightarrow> pystr \<Rightarrow> tts_result) \<Rightarrow>
   (int \<Rightarrow> audio \<Rightarrow> audio) \<Rightarrow> (audio \<Rightarrow> audio \<Rightarrow> audio) \<Rightarrow>
   audio \<Rightarrow> prosody option \<Rightarrow> int option \<Rightarrow> utterance list \<Rightarrow> audio option" where
  "translate_long_video_with_optimization tr sy apply_gain overlay orig prosody_info probed_ms segments =
     (let total_duration = (case prosody_info of None \<Rightarrow> 0 | Some p \<Rightarrow> duration p);
          segment_files = run_windows tr sy orig segments (windows total_duration) []
      in if segment_files = [] then None
         else
           (case combine_segments_simple segment_files of
              None \<Rightarrow> None
            | Some final_audio \<Rightarrow>
                (let final_audio' =
                       (case prosody_info of
                          None \<Rightarrow> final_audio
                        | Some p \<Rightarrow> apply_prosody_to_audio final_audio (Some p) probed_ms)
                 in Some (bed_mix apply_gain overlay orig final_audio'))))"

section \<open>Basic facts about tracks\<close>

lemma length_silent: "length (silent d) = nat d"
  by (simp add: silent_def)

lemma aslice_length:
  "0 \<le> s \<Longrightarrow> int (length (aslice a s e)) = max 0 (min e (int (length a)) - min s (int (length a)))"
  by (auto simp: aslice_def Let_def min_def max_def)

lemma aslice_prefix: "0 \<le> e \<Longrightarrow> aslice a 0 e = take (nat e) a"
  by (auto simp: aslice_def Let_def min_def)

lemma silent_zero [simp]: "silent 0 = []"
  by (simp add: silent_def)

lemma silent_eq_Nil [simp]: "silent d = [] \<longleftrightarrow> d \<le> 0"
  by (simp add: silent_def)

lemma to_ms_mono: "x \<le> y \<Longrightarrow> to_ms x \<le> to_ms y"
proof -
  assume xy: "x \<le> y"
  have up: "x * 1000 \<le> y * 1000" using xy by simp
  show ?thesis
  proof (cases "0 \<le> x")
    case True
    with xy have "0 \<le> y" by simp
    with True up show ?thesis by (simp add: to_ms_def floor_mono)
  next
    case False
    show ?thesis
    proof (cases "0 \<le> y")
      case True
      have "\<lceil>x * 1000\<rceil> \<le> 0" using False by (simp add: ceiling_le_iff)
      moreover have "0 \<le> \<lfloor>y * 1000\<rfloor>" using True by simp
      ultimately have "\<lceil>x * 1000\<rceil> \<le> \<lfloor>y * 1000\<rfloor>" by linarith
      then show ?thesis using False True by (simp add: to_ms_def)
    next
      case y: False
      with False up show ?thesis by (simp add: to_ms_def ceiling_mono)
    qed
  qed
qed

section \<open>Basic facts about the window processor's loop\<close>

lemma timing_step_skipped:
  "skipped_utterance seg \<Longrightarrow> timing_step tr sy idx seg nxt st = st"
  by (auto simp: timing_step_def skipped_utterance_def Let_def)

lemma timing_loop_skipped:
  "list_all skipped_utterance skipped \<Longrightarrow>
   timing_loop tr sy idx (skipped @ xs) st = timing_loop tr sy (idx + length skipped) xs st"
  by (induction skipped arbitrary: idx) (simp_all add: timing_step_skipped)

lemma timing_step_grows:
  "\<exists>tail. combined (timing_step tr sy idx seg nxt st) = combined st @ tail"
  by (auto simp: timing_step_def Let_def append_silence_def append_clip_def split: tts_result.splits)

lemma timing_loop_grows:
  "\<exists>tail. combined (timing_loop tr sy idx segs st) = combined st @ tail"
proof (induction segs arbitrary: idx st)
  case Nil
  then show ?case by simp
next
  case (Cons seg rest)
  obtain t1 where t1: "combined (timing_step tr sy idx seg (next_start_of 0 rest) st) = combined st @ t1"
    using timing_step_grows by blast
  obtain t2 where "combined (timing_loop tr sy (Suc idx) rest (timing_step tr sy idx seg (next_start_of 0 rest) st))
      = combined (timing_step tr sy idx seg (next_start_of 0 rest) st) @ t2"
    using Cons.IH by blast
  with t1 show ?case by simp
qed

lemma timing_step_first_short:
  assumes "\<not> skipped_utterance u"
    and "tr (strip (seg_text u)) \<noteq> []"
    and "sy idx (tr (strip (seg_text u))) = Clip clip"
    and "int (length clip) \<le> to_ms (seg_end u) - to_ms (seg_start u)"
  shows "combined (timing_step tr sy idx u nxt init_state) = silent (to_ms (seg_start u)) @ clip"
  using assms
  by (auto simp: timing_step_def skipped_utterance_def Let_def init_state_def append_silence_def
        append_clip_def silent_def)

section \<open>Basic facts about the run over the windows\<close>

lemma foldl_append_concat: "foldl (@) a xs = a @ concat xs"
  by (induction xs arbitrary: a) simp_all

lemma run_windows_map_filter:
  "run_windows tr sy orig segs ws files =
     files @ List.map_filter (window_output tr sy orig segs) ws"
  by (induction ws arbitrary: files) (simp_all split: option.splits)

lemma concat_map_filter_option:
  "concat (List.map_filter f ws) = concat (map (\<lambda>w. case f w of None \<Rightarrow> [] | Some a \<Rightarrow> a) ws)"
  by (induction ws) (simp_all split: option.splits)

section \<open>Extraction never reaches past the source\<close>

text \<open>
  C10. For a request with a non-negative start time, \<open>extract_audio_segment\<close> fails (and
  exports nothing) when the source file is missing or empty, when the start position is at
  or beyond the end of the track, and when the segment clipped to the track is empty.
  When it succeeds, the exported segment is the slice from the start position to the end
  position clamped to the track's length; it is not empty and it ends at that clamped
  position, so never past the end of the source.
\<close>

theorem extract_audio_segment_clamped:
  assumes "0 \<le> start_time"
  shows "extract_audio_segment None start_time end_time = None \<and>
         extract_audio_segment (Some []) start_time end_time = None \<and>
         (int (length audio) \<le> to_ms start_time \<longrightarrow>
            extract_audio_segment (Some audio) start_time end_time = None) \<and>
         (min (to_ms end_time) (int (length audio)) \<le> to_ms start_time \<longrightarrow>
            extract_audio_segment (Some audio) start_time end_time = None) \<and>
         (\<forall>segment. extract_audio_segment (Some audio) start_time end_time = Some segment \<longrightarrow>
            segment = aslice audio (to_ms start_time) (min (to_ms end_time) (int (length audio))) \<and>
            segment \<noteq> [] \<and>
            to_ms start_time + int (length segment) = min (to_ms end_time) (int (length audio)) \<and>
            to_ms start_time + int (length segment) \<le> int (length audio))"
proof -
  have s0: "0 \<le> to_ms start_time" using assms by (simp add: to_ms_def)
  have a: "extract_audio_segment None start_time end_time = None"
    by (simp add: extract_audio_segment_def)
  have b: "extract_audio_segment (Some []) start_time end_time = None"
    by (simp add: extract_audio_segment_def)
  have c: "int (length audio) \<le> to_ms start_time \<longrightarrow>
           extract_audio_segment (Some audio) start_time end_time = None"
    by (simp add: extract_audio_segment_def Let_def)
  have d: "min (to_ms end_time) (int (length audio)) \<le> to_ms start_time \<longrightarrow>
           extract_audio_segment (Some audio) start_time end_time = None"
    using s0 by (auto simp: extract_audio_segment_def Let_def aslice_def min_def)
  have e: "\<forall>segment. extract_audio_segment (Some audio) start_time end_time = Some segment \<longrightarrow>
            segment = aslice audio (to_ms start_time) (min (to_ms end_time) (int (length audio))) \<and>
            segment \<noteq> [] \<and>
            to_ms start_time + int (length segment) = min (to_ms end_time) (int (length audio)) \<and>
            to_ms start_time + int (length segment) \<le> int (length audio)"
    using s0 aslice_length[of "to_ms start_time" audio "min (to_ms end_time) (int (length audio))"]
    by (auto simp: extract_audio_segment_def Let_def min_def max_def split: if_splits)
  from a b c d e show ?thesis by blast
qed

theorem extract_audio_segment_clamped_witness:
  "(0::rat) \<le> 1 / 1000 \<and>
   extract_audio_segment (Some [1, 2, 3, 4, 5]) (1 / 1000) 1 = Some [2, 3, 4, 5] \<and>
   to_ms (1 / 1000) + int (length [2, 3, 4, 5 :: int]) \<le> int (length [1, 2, 3, 4, 5 :: int]) \<and>
   extract_audio_segment (Some [1, 2, 3, 4, 5]) (1 / 200) 1 = None"
proof -
  have h: "(0::rat) \<le> 1 / 1000" by simp
  have ev: "extract_audio_segment (Some [1, 2, 3, 4, 5]) (1 / 1000) 1 = Some [2, 3, 4, 5]"
    by (simp add: extract_audio_segment_def to_ms_def aslice_def Let_def)
  have t5: "to_ms (1 / 200) = 5" by (simp add: to_ms_def)
  from extract_audio_segment_clamped [OF h, where audio = "[1, 2, 3, 4, 5]" and end_time = 1]
  have "to_ms (1 / 1000) + int (length [2, 3, 4, 5 :: int]) \<le> int (length [1, 2, 3, 4, 5 :: int])"
    using ev by blast
  moreover have "(0::rat) \<le> 1 / 200" by simp
  from extract_audio_segment_clamped [OF this, where audio = "[1, 2, 3, 4, 5]" and end_time = 1]
  have "extract_audio_segment (Some [1, 2, 3, 4, 5]) (1 / 200) 1 = None"
    using t5 by simp
  ultimately show ?thesis using h ev by simp
qed

section \<open>The duration lock of track assembly\<close>

text \<open>
  With a target of 0 ms the guard \<^verbatim>\<open>if original_ms and original_ms > 0\<close> skips the
  length-forcing step: a 100 ms track stays 100 ms long, which is not within 50 ms of 0.
\<close>

theorem duration_lock_zero_target_counterexample:
  "apply_prosody_to_audio (replicate 100 1) (Some \<lparr>duration = 0, nonsilent_ranges = []\<rparr>) None
     = replicate 100 1 \<and>
   \<not> int (length (replicate 100 (1::int))) \<le> 0 + 50"
  by (simp add: apply_prosody_to_audio_def force_length_def target_ms_of_def
        add_prosody_pauses_def to_ms_def)

text \<open>
  C4 (amended). For every track and every target duration greater than 0, the output of
  \<open>apply_prosody_to_audio\<close> is at least the target and at most the target plus 50 ms long:
  a track shorter than the target is padded with trailing silence to exactly the target, a
  track longer than the target plus 50 ms is cut to exactly the target, and a track in
  between is left as it is.
\<close>

theorem duration_lock_positive_target:
  assumes "0 < target_ms_of p probed_ms"
  shows "(let target = target_ms_of p probed_ms;
              pre = add_prosody_pauses (nonsilent_ranges p) synthesized_audio;
              out = apply_prosody_to_audio synthesized_audio (Some p) probed_ms
          in target \<le> int (length out) \<and> int (length out) \<le> target + 50 \<and>
             (int (length pre) < target \<longrightarrow>
                out = pre @ silent (target - int (length pre)) \<and> int (length out) = target) \<and>
             (int (length pre) > target + 50 \<longrightarrow>
                out = take (nat target) pre \<and> int (length out) = target) \<and>
             (target \<le> int (length pre) \<and> int (length pre) \<le> target + 50 \<longrightarrow> out = pre))"
  using assms
  by (auto simp: Let_def apply_prosody_to_audio_def force_length_def length_silent aslice_prefix)

theorem duration_lock_positive_target_witness:
  "0 < target_ms_of \<lparr>duration = 1 / 100, nonsilent_ranges = []\<rparr> None \<and>
   apply_prosody_to_audio [1, 2, 3] (Some \<lparr>duration = 1 / 100, nonsilent_ranges = []\<rparr>) None
     = [1, 2, 3] @ silent 7 \<and>
   int (length (apply_prosody_to_audio [1, 2, 3]
      (Some \<lparr>duration = 1 / 100, nonsilent_ranges = []\<rparr>) None)) = 10"
proof -
  have t: "target_ms_of \<lparr>duration = 1 / 100, nonsilent_ranges = []\<rparr> None = 10"
    by (simp add: target_ms_of_def to_ms_def)
  have h: "0 < target_ms_of \<lparr>duration = 1 / 100, nonsilent_ranges = []\<rparr> None"
    by (simp add: t)
  have pre: "add_prosody_pauses [] [1, 2, 3] = [1, 2, 3]"
    by (simp add: add_prosody_pauses_def)
  from duration_lock_positive_target [OF h, of "[1, 2, 3]"]
  show ?thesis using h by (simp add: Let_def t pre length_silent)
qed

section \<open>The duration fitter\<close>

lemma quiet_scan_no_quiet:
  "True \<notin> set quiet_regions \<Longrightarrow> quiet_scan quiet_regions i (s, e, False) = (s, e, False)"
  by (induction quiet_regions arbitrary: i) auto

lemma quiet_bounds_no_quiet:
  "True \<notin> set quiet_regions \<Longrightarrow> quiet_bounds quiet_regions = ([], [])"
  by (simp add: quiet_bounds_def quiet_scan_no_quiet)

lemma add_pauses_reaches_target:
  assumes "50 \<le> target - int (length audio)"
  shows "\<exists>out. add_pauses_between_words quiet_regions audio target = Some out \<and>
               target \<le> int (length out)"
  using assms
  by (auto simp: add_pauses_between_words_def Let_def length_silent split: prod.splits)

text \<open>
  A clip of 1000 ms with a target of 1045 ms is outside the 40 ms band, but the deficit is
  below the 50 ms that \<open>add_pauses_between_words\<close> asks for before it changes anything: the
  clip comes back unchanged, 45 ms short of the target, although it has a quiet region.
\<close>

theorem fitter_short_by_45_counterexample:
  "stretch_wav_to_duration [False, True, False] (replicate 1000 1) 1045 = Some (replicate 1000 1) \<and>
   \<not> \<bar>int (length (replicate 1000 (1::int))) - 1045\<bar> \<le> 40"
  by (simp add: stretch_wav_to_duration_def add_pauses_between_words_def)

text \<open>
  C5 (amended). For every non-empty clip and every target duration: if the clip is within
  40 ms of the target, or longer than the target, or less than 50 ms short of it, the fitter
  returns the clip unchanged (it never shrinks a clip); if the clip is at least 50 ms short
  of the target, the output is at least as long as the target, and when no sample of the
  clip is flagged quiet the output is the clip with a single trailing pad, of exactly the
  target length.
\<close>

theorem fitter_contract:
  assumes "seg \<noteq> []"
  shows "(\<bar>int (length seg) - target\<bar> \<le> 40 \<longrightarrow>
            stretch_wav_to_duration quiet_regions seg target = Some seg) \<and>
         (target < int (length seg) \<longrightarrow>
            stretch_wav_to_duration quiet_regions seg target = Some seg) \<and>
         (target - int (length seg) < 50 \<longrightarrow>
            stretch_wav_to_duration quiet_regions seg target = Some seg) \<and>
         (50 \<le> target - int (length seg) \<longrightarrow>
            (\<exists>out. stretch_wav_to_duration quiet_regions seg target = Some out \<and>
                   target \<le> int (length out)) \<and>
            (True \<notin> set quiet_regions \<longrightarrow>
               stretch_wav_to_duration quiet_regions seg target
                 = Some (seg @ silent (target - int (length seg))) \<and>
               int (length (seg @ silent (target - int (length seg)))) = target))"
proof -
  have ne: "int (length seg) \<noteq> 0" using assms by simp
  have a: "\<bar>int (length seg) - target\<bar> \<le> 40 \<longrightarrow>
            stretch_wav_to_duration quiet_regions seg target = Some seg"
    using ne by (simp add: stretch_wav_to_duration_def Let_def)
  have b: "target < int (length seg) \<longrightarrow>
            stretch_wav_to_duration quiet_regions seg target = Some seg"
    using ne by (simp add: stretch_wav_to_duration_def Let_def)
  have c: "target - int (length seg) < 50 \<longrightarrow>
            stretch_wav_to_duration quiet_regions seg target = Some seg"
    using ne by (simp add: stretch_wav_to_duration_def add_pauses_between_words_def Let_def)
  have d: "50 \<le> target - int (length seg) \<longrightarrow>
            (\<exists>out. stretch_wav_to_duration quiet_regions seg target = Some out \<and>
                   target \<le> int (length out))"
    using ne add_pauses_reaches_target [where audio = seg and target = target and quiet_regions = quiet_regions]
    by (simp add: stretch_wav_to_duration_def Let_def)
  have e: "50 \<le> target - int (length seg) \<longrightarrow> True \<notin> set quiet_regions \<longrightarrow>
               stretch_wav_to_duration quiet_regions seg target
                 = Some (seg @ silent (target - int (length seg))) \<and>
               int (length (seg @ silent (target - int (length seg)))) = target"
    using ne
    by (simp add: stretch_wav_to_duration_def add_pauses_between_words_def Let_def
          quiet_bounds_no_quiet length_silent)
  from a b c d e show ?thesis by blast
qed

theorem fitter_contract_witness:
  "[1, 2, 3 :: int] \<noteq> [] \<and>
   stretch_wav_to_duration [False, False, False] [1, 2, 3] 60 = Some ([1, 2, 3] @ silent 57) \<and>
   int (length ([1, 2, 3] @ silent 57)) = 60 \<and>
   stretch_wav_to_duration [False, False, False] [1, 2, 3] 2 = Some [1, 2, 3] \<and>
   stretch_wav_to_duration [False, True, True, False, False] [1, 2, 3, 4, 5, 6, 7, 8, 9, 10] 70
     = Some ([1] @ silent 62 @ [4, 5, 6, 7, 8, 9, 10])"
proof -
  have h: "[1, 2, 3 :: int] \<noteq> []" by simp
  have q: "stretch_wav_to_duration [False, True, True, False, False] [1, 2, 3, 4, 5, 6, 7, 8, 9, 10] 70
     = Some ([1] @ silent 62 @ [4, 5, 6, 7, 8, 9, 10])"
    by (simp add: stretch_wav_to_duration_def add_pauses_between_words_def quiet_bounds_def
          Let_def aslice_def length_silent)
  from fitter_contract [OF h, where target = 60 and quiet_regions = "[False, False, False]"]
       fitter_contract [OF h, where target = 2 and quiet_regions = "[False, False, False]"]
  show ?thesis using q by simp
qed

section \<open>Which window processes an utterance\<close>

lemma segment_duration_pos: "0 < segment_duration t"
  by (simp add: segment_duration_def Let_def)

lemma takeWhile_upt_mem:
  "i < n \<Longrightarrow> (\<And>j. j \<le> i \<Longrightarrow> P j) \<Longrightarrow> i \<in> set (takeWhile P [0..<n])"
proof (induction n)
  case 0
  then show ?case by simp
next
  case (Suc n)
  show ?case
  proof (cases "i < n")
    case True
    with Suc have "i \<in> set (takeWhile P [0..<n])" by simp
    then show ?thesis by (auto simp: takeWhile_append dest: set_takeWhileD)
  next
    case False
    with Suc.prems have "i = n" by simp
    with Suc.prems have "\<forall>x\<in>set [0..<Suc n]. P x" by auto
    then have eq: "takeWhile P [0..<Suc n] = [0..<Suc n]"
      by (simp only: takeWhile_eq_all_conv)
    have "i \<in> set [0..<Suc n]" using \<open>i = n\<close> by simp
    then show ?thesis by (simp only: eq)
  qed
qed

lemma window_of_start:
  assumes "0 \<le> x" "x < total_duration"
  shows "\<exists>w \<in> set (windows total_duration). fst w \<le> x \<and> x < snd w"
proof -
  define d where "d = segment_duration total_duration"
  have dpos: "0 < d" by (simp add: d_def segment_duration_pos)
  define i where "i = nat \<lfloor>x / d\<rfloor>"
  have fl0: "0 \<le> \<lfloor>x / d\<rfloor>" using assms dpos by simp
  have ii: "of_nat i = (of_int \<lfloor>x / d\<rfloor> :: rat)" using fl0 by (simp add: i_def)
  have lo: "of_nat i * d \<le> x"
    unfolding ii using dpos by (subst pos_le_divide_eq [symmetric]) simp_all
  have "x / d < of_int \<lfloor>x / d\<rfloor> + 1" by linarith
  then have hi: "x < (of_nat i + 1) * d"
    unfolding ii using dpos by (simp add: pos_divide_less_eq)
  have "\<lfloor>x / d\<rfloor> \<le> \<lfloor>total_duration / d\<rfloor>"
    using assms dpos by (intro floor_mono) (simp add: divide_right_mono)
  then have iest: "i < estimated_segments total_duration"
    using fl0 unfolding estimated_segments_def i_def d_def by linarith
  have "\<And>j. j \<le> i \<Longrightarrow> of_nat j * d < total_duration"
  proof -
    fix j assume "j \<le> i"
    then have "(of_nat j :: rat) \<le> of_nat i" by simp
    then have "of_nat j * d \<le> of_nat i * d" using dpos by simp
    with lo assms show "of_nat j * d < total_duration" by simp
  qed
  then have mem: "i \<in> set (takeWhile (\<lambda>i. of_nat i * d < total_duration)
                         [0..<estimated_segments total_duration])"
    using iest by (intro takeWhile_upt_mem) auto
  let ?w = "(of_nat i * d, min ((of_nat i + 1) * d) total_duration)"
  have "?w \<in> set (windows total_duration)"
    using mem by (auto simp: windows_def d_def)
  moreover have "fst ?w \<le> x \<and> x < snd ?w" using lo hi assms by simp
  ultimately show ?thesis by blast
qed

text \<open>
  A recording of 60 s has the windows 0 to 30 s and 30 to 60 s. An utterance from 25 s to
  35 s passes the filter of both, so both windows process it.
\<close>

theorem utterance_in_two_windows_counterexample:
  "windows 60 = [(0, 30), (30, 60)] \<and>
   relevant_segments [\<lparr>seg_start = 25, seg_end = 35, seg_text = [97]\<rparr>] 0 30
     = [\<lparr>seg_start = 25, seg_end = 35, seg_text = [97]\<rparr>] \<and>
   relevant_segments [\<lparr>seg_start = 25, seg_end = 35, seg_text = [97]\<rparr>] 30 60
     = [\<lparr>seg_start = 25, seg_end = 35, seg_text = [97]\<rparr>]"
  by (simp add: windows_def segment_duration_def estimated_segments_def upt_rec
        relevant_segments_def)

text \<open>
  C1 (amended). A window selects exactly the utterances whose span overlaps it
  (\<open>seg_start < end_time\<close> and \<open>seg_end > start_time\<close>). So every utterance of positive
  length whose start lies in the recording is selected by the window that contains its
  start, and is not dropped; it is selected as well by every other window its span
  reaches into.
\<close>

theorem utterance_selected_by_overlap:
  assumes "u \<in> set all_segments"
    and "0 \<le> seg_start u" and "seg_start u < total_duration" and "seg_start u < seg_end u"
  shows "(\<exists>w \<in> set (windows total_duration).
            fst w \<le> seg_start u \<and> seg_start u < snd w \<and>
            u \<in> set (relevant_segments all_segments (fst w) (snd w))) \<and>
         (\<forall>start_time end_time.
            u \<in> set (relevant_segments all_segments start_time end_time) \<longleftrightarrow>
            seg_start u < end_time \<and> seg_end u > start_time)"
proof -
  from window_of_start [OF assms(2) assms(3)]
  obtain w where w: "w \<in> set (windows total_duration)" "fst w \<le> seg_start u" "seg_start u < snd w"
    by blast
  then have "u \<in> set (relevant_segments all_segments (fst w) (snd w))"
    using assms by (simp add: relevant_segments_def)
  with w have "\<exists>w \<in> set (windows total_duration).
            fst w \<le> seg_start u \<and> seg_start u < snd w \<and>
            u \<in> set (relevant_segments all_segments (fst w) (snd w))" by blast
  moreover have "\<forall>start_time end_time.
            u \<in> set (relevant_segments all_segments start_time end_time) \<longleftrightarrow>
            seg_start u < end_time \<and> seg_end u > start_time"
    using assms(1) by (simp add: relevant_segments_def)
  ultimately show ?thesis by blast
qed

theorem utterance_selected_by_overlap_witness:
  "(0::rat) \<le> 25 \<and> (25::rat) < 60 \<and> (25::rat) < 35 \<and>
   \<lparr>seg_start = 25, seg_end = 35, seg_text = [97]\<rparr>
     \<in> set (relevant_segments [\<lparr>seg_start = 25, seg_end = 35, seg_text = [97]\<rparr>] 0 30) \<and>
   \<lparr>seg_start = 25, seg_end = 35, seg_text = [97]\<rparr>
     \<in> set (relevant_segments [\<lparr>seg_start = 25, seg_end = 35, seg_text = [97]\<rparr>] 30 60) \<and>
   \<lparr>seg_start = 25, seg_end = 35, seg_text = [97]\<rparr>
     \<notin> set (relevant_segments [\<lparr>seg_start = 25, seg_end = 35, seg_text = [97]\<rparr>] 35 60)"
  using utterance_selected_by_overlap
    [of "\<lparr>seg_start = 25, seg_end = 35, seg_text = [97]\<rparr>"
        "[\<lparr>seg_start = 25, seg_end = 35, seg_text = [97]\<rparr>]" 60]
  by simp

section \<open>A window's output starts at global time zero\<close>

text \<open>
  The window from 30 s to 60 s, whose span is 30000 ms. With one utterance from 10 s to
  31 s and a clip of 1000 ms its output is 11000 ms long, shorter than the span. With one
  utterance from 30.5 s to 31 s and a clip of 500 ms its output is 31000 ms long: 1000 ms
  more than the span, not 30000 ms more.
\<close>

theorem window_output_not_span_plus_offset_counterexample:
  "process_segment_with_correct_timing (\<lambda>t. [72, 105, 46]) (\<lambda>i t. Clip (replicate 1000 1))
      [\<lparr>seg_start = 10, seg_end = 31, seg_text = [97]\<rparr>] 30 60
     = Some (silent 10000 @ replicate 1000 1) \<and>
   int (length (silent 10000 @ replicate 1000 (1::int))) < to_ms (60 - 30) \<and>
   process_segment_with_correct_timing (\<lambda>t. [72, 105, 46]) (\<lambda>i t. Clip (replicate 500 1))
      [\<lparr>seg_start = 61 / 2, seg_end = 31, seg_text = [97]\<rparr>] 30 60
     = Some (silent 30500 @ replicate 500 1) \<and>
   int (length (silent 30500 @ replicate 500 (1::int))) = to_ms (60 - 30) + 1000"
  by (simp add: process_segment_with_correct_timing_def relevant_segments_def timing_step_def
        init_state_def append_silence_def append_clip_def next_start_of_def to_ms_def
        strip_def is_space_def Let_def length_silent)

text \<open>
  C3 (amended). In the long-video window processor the cursor \<open>current_ms\<close> starts at 0 in
  every window while the utterances keep their global timestamps. If the first utterance
  of the window that passes the loop's guard is translated and synthesized into a clip no
  longer than its source duration, and \<open>s\<close> is its global start in milliseconds, the
  window's output is \<open>s\<close> milliseconds of silence, then the clip, then whatever the rest of
  the loop appends: the full global offset is inserted, not the offset within the window.
  The output is therefore at least \<open>s\<close> plus the clip's duration long, and when the
  utterance starts inside the window, \<open>s\<close> is at least the window's own global start.
\<close>

theorem window_starts_with_global_offset:
  assumes "relevant_segments all_segments start_time end_time = skipped @ u # rest"
    and "list_all skipped_utterance skipped"
    and "\<not> skipped_utterance u"
    and "tr (strip (seg_text u)) \<noteq> []"
    and "sy (length skipped) (tr (strip (seg_text u))) = Clip clip"
    and "clip \<noteq> []"
    and "int (length clip) \<le> to_ms (seg_end u) - to_ms (seg_start u)"
  shows "\<exists>tail. process_segment_with_correct_timing tr sy all_segments start_time end_time
                  = Some (silent (to_ms (seg_start u)) @ clip @ tail) \<and>
                to_ms (seg_start u) + int (length clip)
                  \<le> int (length (silent (to_ms (seg_start u)) @ clip @ tail)) \<and>
                (start_time \<le> seg_start u \<longrightarrow> to_ms start_time \<le> to_ms (seg_start u))"
proof -
  let ?st1 = "timing_step tr sy (length skipped) u (next_start_of 0 rest) init_state"
  have loop: "timing_loop tr sy 0 (skipped @ u # rest) init_state
      = timing_loop tr sy (Suc (length skipped)) rest ?st1"
    using assms(2) by (simp add: timing_loop_skipped)
  have first: "combined ?st1 = silent (to_ms (seg_start u)) @ clip"
    using assms(3,4,5,7) by (rule timing_step_first_short)
  obtain tail where tail: "combined (timing_loop tr sy (Suc (length skipped)) rest ?st1)
      = combined ?st1 @ tail"
    using timing_loop_grows by blast
  have "combined (timing_loop tr sy 0 (skipped @ u # rest) init_state)
      = silent (to_ms (seg_start u)) @ clip @ tail"
    using loop first tail by simp
  then have out: "process_segment_with_correct_timing tr sy all_segments start_time end_time
           = Some (silent (to_ms (seg_start u)) @ clip @ tail)"
    using assms(1,6) by (simp add: process_segment_with_correct_timing_def Let_def)
  have len: "to_ms (seg_start u) + int (length clip)
      \<le> int (length (silent (to_ms (seg_start u)) @ clip @ tail))"
    by (simp add: length_silent)
  have off: "start_time \<le> seg_start u \<longrightarrow> to_ms start_time \<le> to_ms (seg_start u)"
    by (simp add: to_ms_mono)
  from out len off show ?thesis by blast
qed

text \<open>
  The window from 30 s to 60 s with one utterance from 31 s to 59 s and a clip of 28 s:
  the output is 31 s of silence and the clip, 59 s in all.
\<close>

theorem window_starts_with_global_offset_witness:
  "process_segment_with_correct_timing (\<lambda>t. [72, 101, 108, 108, 111, 46]) (\<lambda>i t. Clip (replicate 28000 1))
      [\<lparr>seg_start = 1, seg_end = 2, seg_text = [97]\<rparr>,
       \<lparr>seg_start = 31, seg_end = 59, seg_text = [98]\<rparr>] 30 60
     = Some (silent 31000 @ replicate 28000 1) \<and>
   length (silent 31000 @ replicate 28000 (1::int)) = 59000"
proof -
  have rel: "relevant_segments [\<lparr>seg_start = 1, seg_end = 2, seg_text = [97]\<rparr>,
       \<lparr>seg_start = 31, seg_end = 59, seg_text = [98]\<rparr>] 30 60
     = [] @ \<lparr>seg_start = 31, seg_end = 59, seg_text = [98]\<rparr> # []"
    by (simp add: relevant_segments_def)
  have ns: "\<not> skipped_utterance \<lparr>seg_start = 31, seg_end = 59, seg_text = [98]\<rparr>"
    by (simp add: skipped_utterance_def to_ms_def strip_def is_space_def)
  have ru: "int (length (replicate 28000 (1::int)))
      \<le> to_ms (seg_end \<lparr>seg_start = 31, seg_end = 59, seg_text = [98]\<rparr>)
        - to_ms (seg_start \<lparr>seg_start = 31, seg_end = 59, seg_text = [98]\<rparr>)"
    by (simp add: to_ms_def)
  have ms: "to_ms 31 = 31000"
    by (simp add: to_ms_def)
  from window_starts_with_global_offset
    [where tr = "\<lambda>t. [72, 101, 108, 108, 111, 46]" and sy = "\<lambda>i t. Clip (replicate 28000 1)"
       and clip = "replicate 28000 1", OF rel _ ns _ _ _ ru]
  obtain tail where t: "process_segment_with_correct_timing (\<lambda>t. [72, 101, 108, 108, 111, 46])
      (\<lambda>i t. Clip (replicate 28000 1))
      [\<lparr>seg_start = 1, seg_end = 2, seg_text = [97]\<rparr>,
       \<lparr>seg_start = 31, seg_end = 59, seg_text = [98]\<rparr>] 30 60
     = Some (silent 31000 @ replicate 28000 1 @ tail)"
    by (auto simp: ms)
  have ev: "process_segment_with_correct_timing (\<lambda>t. [72, 101, 108, 108, 111, 46])
      (\<lambda>i t. Clip (replicate 28000 1))
      [\<lparr>seg_start = 1, seg_end = 2, seg_text = [97]\<rparr>,
       \<lparr>seg_start = 31, seg_end = 59, seg_text = [98]\<rparr>] 30 60
     = Some (silent 31000 @ replicate 28000 1)"
    by (simp add: process_segment_with_correct_timing_def relevant_segments_def timing_step_def
          init_state_def append_silence_def append_clip_def next_start_of_def to_ms_def
          strip_def is_space_def Let_def length_silent)
  from t ev show ?thesis by (simp add: length_silent)
qed

section \<open>Placements are monotone and do not overlap\<close>

lemma placements_ok_snoc:
  "placements_ok (ps @ [p]) =
     (placements_ok ps \<and>
      (ps = [] \<or> (fst (last ps) \<le> fst p \<and> fst (last ps) + length (snd (last ps)) \<le> fst p)))"
  by (induction ps rule: placements_ok.induct) auto

lemma clips_in_place_snoc:
  "clips_in_place track (ps @ [p]) = (clips_in_place track ps \<and> clips_in_place track [p])"
  by (induction ps) auto

lemma clips_in_place_grow:
  "clips_in_place track ps \<Longrightarrow> clips_in_place (track @ extra) ps"
  by (induction ps) auto

lemma clips_in_place_last:
  "clips_in_place track ps \<Longrightarrow> ps \<noteq> [] \<Longrightarrow>
   fst (last ps) + length (snd (last ps)) \<le> length track"
  by (induction ps) auto

lemma well_placed_init: "well_placed init_state"
  by (simp add: well_placed_def init_state_def)

lemma well_placed_silence: "well_placed st \<Longrightarrow> well_placed (append_silence d st)"
  by (simp add: well_placed_def append_silence_def clips_in_place_grow)

lemma well_placed_clip: "well_placed st \<Longrightarrow> well_placed (append_clip a st)"
  using clips_in_place_last [of "combined st" "placed st"]
  by (auto simp: well_placed_def append_clip_def placements_ok_snoc clips_in_place_snoc
        clips_in_place_grow)

lemma well_placed_cursor [simp]: "well_placed (st\<lparr>current_ms := c\<rparr>) = well_placed st"
  by (simp add: well_placed_def)

lemma well_placed_flag [simp]: "well_placed (st\<lparr>prev_en_terminal := b\<rparr>) = well_placed st"
  by (simp add: well_placed_def)

lemma well_placed_pause: "well_placed st \<Longrightarrow> well_placed (pause_before start_ms st)"
  by (simp add: pause_before_def Let_def well_placed_silence)

lemma well_placed_timing_step:
  "well_placed st \<Longrightarrow> well_placed (timing_step tr sy idx seg nxt st)"
  by (simp add: timing_step_def Let_def well_placed_silence well_placed_clip
        split: tts_result.splits)

lemma well_placed_voice_step:
  "well_placed st \<Longrightarrow> well_placed (voice_step tr sy q idx seg nxt st)"
  by (simp add: voice_step_def Let_def well_placed_pause well_placed_clip
        split: tts_result.splits option.splits)

lemma well_placed_full_step:
  "well_placed st \<Longrightarrow> well_placed (full_step tr sy off idx seg nxt st)"
  by (simp add: full_step_def Let_def well_placed_pause well_placed_clip
        split: tts_result.splits option.splits)

lemma well_placed_timing_loop:
  "well_placed st \<Longrightarrow> well_placed (timing_loop tr sy idx segs st)"
  by (induction segs arbitrary: idx st) (simp_all add: well_placed_timing_step)

lemma well_placed_voice_loop:
  "well_placed st \<Longrightarrow> well_placed (voice_loop tr sy q idx segs st)"
  by (induction segs arbitrary: idx st) (simp_all add: well_placed_voice_step)

lemma well_placed_full_loop:
  "well_placed st \<Longrightarrow> well_placed (full_loop tr sy off idx segs st)"
  by (induction segs arbitrary: idx st) (simp_all add: well_placed_full_step)

text \<open>
  C8. For every utterance list, every translator and every synthesizer, the clips that each
  of the three alignment loops places have non-decreasing onsets on the output track, no
  clip starts before the previous one has ended, and every clip lies on the final track
  at its onset: the track only grows, by appended silence and appended clips.
\<close>

theorem placements_monotone_without_overlap:
  "placements_ok (placed (timing_loop tr sy 0 segs init_state)) \<and>
   clips_in_place (combined (timing_loop tr sy 0 segs init_state))
     (placed (timing_loop tr sy 0 segs init_state)) \<and>
   placements_ok (placed (voice_loop tr sy quiet_of 0 segs init_state)) \<and>
   clips_in_place (combined (voice_loop tr sy quiet_of 0 segs init_state))
     (placed (voice_loop tr sy quiet_of 0 segs init_state)) \<and>
   placements_ok (placed (full_loop tr sy time_offset 0 segs init_state)) \<and>
   clips_in_place (combined (full_loop tr sy time_offset 0 segs init_state))
     (placed (full_loop tr sy time_offset 0 segs init_state))"
  using well_placed_timing_loop [OF well_placed_init, of tr sy 0 segs]
    well_placed_voice_loop [OF well_placed_init, of tr sy quiet_of 0 segs]
    well_placed_full_loop [OF well_placed_init, of tr sy time_offset 0 segs]
  by (simp add: well_placed_def)

text \<open>
  The onsets are positions on the track, not values of \<open>current_ms\<close>: in the window
  processor the variable is set to \<open>start_ms + en_duration\<close> for a short clip, and falls
  behind the track when an earlier clip has run over. Here the second clip lies at
  5..7 ms while \<open>current_ms\<close> ends at 6.
\<close>

lemma placements_example:
  "placed (timing_loop (\<lambda>t. [72, 105]) (\<lambda>i t. Clip (if i = 0 then [1, 1, 1, 1, 1] else [2, 2])) 0
      [\<lparr>seg_start = 0, seg_end = 1 / 500, seg_text = [97]\<rparr>,
       \<lparr>seg_start = 1 / 250, seg_end = 1 / 100, seg_text = [98]\<rparr>] init_state)
    = [(0, [1, 1, 1, 1, 1]), (5, [2, 2])] \<and>
   current_ms (timing_loop (\<lambda>t. [72, 105]) (\<lambda>i t. Clip (if i = 0 then [1, 1, 1, 1, 1] else [2, 2])) 0
      [\<lparr>seg_start = 0, seg_end = 1 / 500, seg_text = [97]\<rparr>,
       \<lparr>seg_start = 1 / 250, seg_end = 1 / 100, seg_text = [98]\<rparr>] init_state) = 6"
  by (simp add: timing_step_def init_state_def append_silence_def append_clip_def
        next_start_of_def to_ms_def strip_def is_space_def Let_def MAX_GAP_MS_def)

section \<open>The pause before an utterance\<close>

text \<open>
  In the two loops that call \<open>pause_before\<close> the silence inserted ahead of an utterance that
  starts after the cursor is the distance to its start, capped at 120 ms when the previous
  placed text did not end in terminal punctuation, and at 2000 ms in any case.
\<close>

lemma pause_before_capped:
  assumes "current_ms st < start_ms"
  shows "combined (pause_before start_ms st) =
           combined st @ silent (if prev_en_terminal st
                                 then min (start_ms - current_ms st) 2000
                                 else min (min (start_ms - current_ms st) 120) 2000)"
  using assms
  by (simp add: pause_before_def Let_def append_silence_def MAX_PAUSE_MS_def
        CONTINUATION_PAUSE_MS_def)

text \<open>
  C2. The long-video window processor declares the same two limits but does not use them.
  For one utterance from 5 s to 8 s with a clip of 1000 ms and the cursor at 0, it inserts
  5000 ms of silence before the clip, where the two other loops insert 2000 ms on the same
  input.
\<close>

theorem window_pause_not_capped:
  "process_segment_with_correct_timing (\<lambda>t. [72, 105, 46]) (\<lambda>i t. Clip (replicate 1000 1))
      [\<lparr>seg_start = 5, seg_end = 8, seg_text = [97]\<rparr>] 0 30
     = Some (silent 5000 @ replicate 1000 1) \<and>
   combined (full_loop (\<lambda>t. [72, 105, 46]) (\<lambda>i t. Clip (replicate 1000 1)) 0 0
      [\<lparr>seg_start = 5, seg_end = 8, seg_text = [97]\<rparr>] init_state)
     = silent 2000 @ replicate 1000 1 \<and>
   combined (voice_loop (\<lambda>t. [72, 105, 46]) (\<lambda>i t. Clip (replicate 1000 1)) (\<lambda>a. []) 0
      [\<lparr>seg_start = 5, seg_end = 8, seg_text = [97]\<rparr>] init_state)
     = silent 2000 @ replicate 1000 1"
  by (simp add: process_segment_with_correct_timing_def relevant_segments_def timing_step_def
        full_step_def voice_step_def pause_before_def MAX_PAUSE_MS_def CONTINUATION_PAUSE_MS_def
        init_state_def append_silence_def append_clip_def next_start_of_def to_ms_def
        strip_def is_space_def Let_def length_silent)

section \<open>A failed synthesis\<close>

text \<open>
  The failure branch of the window processor's loop: for an utterance that passes the
  guard and is translated, and whose synthesis returns no output, the step appends
  \<open>end_ms - start_ms\<close> of silence at the end of the track as it is, without the silence up to
  \<open>start_ms\<close> that the branch for a short clip inserts first, and sets the cursor to \<open>end_ms\<close>.
\<close>

lemma timing_step_synthesis_failure:
  assumes "\<not> skipped_utterance seg"
    and "tr (strip (seg_text seg)) \<noteq> []"
    and "sy idx (tr (strip (seg_text seg))) = NoOutput"
  shows "timing_step tr sy idx seg nxt st =
           st\<lparr>combined := combined st @ silent (to_ms (seg_end seg) - to_ms (seg_start seg)),
              current_ms := to_ms (seg_end seg)\<rparr>"
  using assms
  by (simp add: timing_step_def skipped_utterance_def Let_def append_silence_def)

text \<open>
  C9. Three utterances of 500 ms at 0 s, 1 s and 2 s in one window, each clip 500 ms long.
  Without a failure the window's output is 2500 ms long and the third clip lies at
  2000 ms. When the synthesis of the second utterance fails, the window processor writes
  its 500 ms of silence at 500..1000 ms, not at the utterance's place 1000..1500 ms; the
  output is 2000 ms long and the third clip lies at 1500 ms, 500 ms early. The loop of
  \<open>full_step\<close>, which pauses up to the start of every utterance before it synthesizes, gives
  2500 ms on the same input with the failure.
\<close>

theorem synthesis_failure_shortens_window:
  "process_segment_with_correct_timing (\<lambda>t. [72, 105, 46])
      (\<lambda>i t. if i = 1 then NoOutput else Clip (replicate 500 1))
      [\<lparr>seg_start = 0, seg_end = 1 / 2, seg_text = [97]\<rparr>,
       \<lparr>seg_start = 1, seg_end = 3 / 2, seg_text = [98]\<rparr>,
       \<lparr>seg_start = 2, seg_end = 5 / 2, seg_text = [99]\<rparr>] 0 30
     = Some (replicate 500 1 @ silent 500 @ silent 500 @ replicate 500 1) \<and>
   process_segment_with_correct_timing (\<lambda>t. [72, 105, 46])
      (\<lambda>i t. Clip (replicate 500 1))
      [\<lparr>seg_start = 0, seg_end = 1 / 2, seg_text = [97]\<rparr>,
       \<lparr>seg_start = 1, seg_end = 3 / 2, seg_text = [98]\<rparr>,
       \<lparr>seg_start = 2, seg_end = 5 / 2, seg_text = [99]\<rparr>] 0 30
     = Some (replicate 500 1 @ silent 500 @ replicate 500 1 @ silent 500 @ replicate 500 1) \<and>
   length (replicate 500 (1::int) @ silent 500 @ silent 500 @ replicate 500 1) = 2000 \<and>
   length (replicate 500 (1::int) @ silent 500 @ replicate 500 1 @ silent 500 @ replicate 500 1)
     = 2500 \<and>
   placed (timing_loop (\<lambda>t. [72, 105, 46])
      (\<lambda>i t. if i = 1 then NoOutput else Clip (replicate 500 1)) 0
      [\<lparr>seg_start = 0, seg_end = 1 / 2, seg_text = [97]\<rparr>,
       \<lparr>seg_start = 1, seg_end = 3 / 2, seg_text = [98]\<rparr>,
       \<lparr>seg_start = 2, seg_end = 5 / 2, seg_text = [99]\<rparr>] init_state)
     = [(0, replicate 500 1), (1500, replicate 500 1)] \<and>
   placed (timing_loop (\<lambda>t. [72, 105, 46]) (\<lambda>i t. Clip (replicate 500 1)) 0
      [\<lparr>seg_start = 0, seg_end = 1 / 2, seg_text = [97]\<rparr>,
       \<lparr>seg_start = 1, seg_end = 3 / 2, seg_text = [98]\<rparr>,
       \<lparr>seg_start = 2, seg_end = 5 / 2, seg_text = [99]\<rparr>] init_state)
     = [(0, replicate 500 1), (1000, replicate 500 1), (2000, replicate 500 1)] \<and>
   length (combined (full_loop (\<lambda>t. [72, 105, 46])
      (\<lambda>i t. if i = 1 then NoOutput else Clip (replicate 500 1)) 0 0
      [\<lparr>seg_start = 0, seg_end = 1 / 2, seg_text = [97]\<rparr>,
       \<lparr>seg_start = 1, seg_end = 3 / 2, seg_text = [98]\<rparr>,
       \<lparr>seg_start = 2, seg_end = 5 / 2, seg_text = [99]\<rparr>] init_state)) = 2500"
  by (simp add: process_segment_with_correct_timing_def relevant_segments_def timing_step_def
        full_step_def pause_before_def MAX_PAUSE_MS_def CONTINUATION_PAUSE_MS_def
        ends_terminal_def init_state_def append_silence_def append_clip_def next_start_of_def
        to_ms_def strip_def is_space_def Let_def length_silent)

section \<open>Windows that fail\<close>

text \<open>
  A recording of 60 s whose second window holds only an utterance with empty text: the
  loop of that window places nothing, the window fails, and the concatenated output is the
  first window's 1500 ms alone. Nothing stands in for the 30 s of the failed window.
\<close>

theorem failed_window_leaves_gap_counterexample:
  "windows 60 = [(0, 30), (30, 60)] \<and>
   window_output (\<lambda>t. [72, 105, 46]) (\<lambda>i t. Clip (replicate 500 1)) (replicate 60000 0)
      [\<lparr>seg_start = 1, seg_end = 2, seg_text = [97]\<rparr>,
       \<lparr>seg_start = 31, seg_end = 32, seg_text = []\<rparr>] (30, 60) = None \<and>
   combine_segments_simple
     (run_windows (\<lambda>t. [72, 105, 46]) (\<lambda>i t. Clip (replicate 500 1)) (replicate 60000 0)
        [\<lparr>seg_start = 1, seg_end = 2, seg_text = [97]\<rparr>,
         \<lparr>seg_start = 31, seg_end = 32, seg_text = []\<rparr>] (windows 60) [])
     = Some (silent 1000 @ replicate 500 1) \<and>
   int (length (silent 1000 @ replicate 500 (1::int))) < to_ms (60 - 30)"
proof -
  have w: "windows 60 = [(0, 30), (30, 60)]"
    by (simp add: windows_def segment_duration_def estimated_segments_def upt_rec)
  have w1: "window_output (\<lambda>t. [72, 105, 46]) (\<lambda>i t. Clip (replicate 500 1)) (replicate 60000 0)
      [\<lparr>seg_start = 1, seg_end = 2, seg_text = [97]\<rparr>,
       \<lparr>seg_start = 31, seg_end = 32, seg_text = []\<rparr>] (0, 30)
      = Some (silent 1000 @ replicate 500 1)"
    by (simp add: window_output_def extract_audio_segment_def aslice_def
        process_segment_with_correct_timing_def relevant_segments_def timing_step_def
        init_state_def append_silence_def append_clip_def next_start_of_def to_ms_def
        strip_def is_space_def Let_def length_silent)
  have w2: "window_output (\<lambda>t. [72, 105, 46]) (\<lambda>i t. Clip (replicate 500 1)) (replicate 60000 0)
      [\<lparr>seg_start = 1, seg_end = 2, seg_text = [97]\<rparr>,
       \<lparr>seg_start = 31, seg_end = 32, seg_text = []\<rparr>] (30, 60) = None"
    by (simp add: window_output_def extract_audio_segment_def aslice_def
        process_segment_with_correct_timing_def relevant_segments_def timing_step_def
        init_state_def append_silence_def append_clip_def next_start_of_def to_ms_def
        strip_def is_space_def Let_def length_silent)
  show ?thesis
    by (simp add: w w1 w2 combine_segments_simple_def length_silent to_ms_def)
qed

text \<open>
  C6 (amended). The run goes through all its windows whether or not some of them fail
  (at extraction or at processing), and a failed window contributes no audio to the
  concatenated output: the output is the concatenation, in window order, of the outputs
  of the windows that succeeded, and combining fails when that is empty.
\<close>

theorem failed_window_contributes_nothing:
  "combine_segments_simple (run_windows tr sy orig segs ws []) =
     (let out = concat (map (\<lambda>w. case window_output tr sy orig segs w of
                                   None \<Rightarrow> []
                                 | Some a \<Rightarrow> a) ws)
      in if out = [] then None else Some out)"
  by (simp add: combine_segments_simple_def run_windows_map_filter foldl_append_concat
        concat_map_filter_option Let_def)

section \<open>The bed mix\<close>

text \<open>
  C7. Whenever the long-video run produces its final track, that track is the overlay of
  the translated track on the bed, where the translated track is the prosody-adjusted
  concatenation of the window outputs, and the bed is the original track, padded with
  silence or cut to the length of the translated track and attenuated by -24 dB. Gain and
  overlay are arbitrary functions here and occur once each, outside the concatenation: the
  window outputs are built without them.
\<close>

theorem bed_mix_once_after_concatenation:
  assumes "translate_long_video_with_optimization tr sy apply_gain overlay orig prosody_info
             probed_ms segments = Some mixed"
  shows "\<exists>p. prosody_info = Some p \<and>
     (let tts = apply_prosody_to_audio
                  (concat (List.map_filter (window_output tr sy orig segments)
                             (windows (duration p))))
                  (Some p) probed_ms;
          bed_src = (if length orig < length tts
                     then orig @ silent (int (length tts) - int (length orig))
                     else take (length tts) orig)
      in length bed_src = length tts \<and>
         mixed = overlay (apply_gain (- 24) bed_src) tts)"
proof (cases prosody_info)
  case None
  have "windows 0 = []"
    by (simp add: windows_def segment_duration_def estimated_segments_def)
  with None assms show ?thesis
    by (simp add: translate_long_video_with_optimization_def Let_def)
next
  case (Some p)
  with assms show ?thesis
    by (auto simp: translate_long_video_with_optimization_def Let_def run_windows_map_filter
          combine_segments_simple_def foldl_append_concat bed_mix_def bed_gain_db_def
          aslice_prefix length_silent
          split: if_splits option.splits)
qed

theorem bed_mix_once_after_concatenation_witness:
  "translate_long_video_with_optimization (\<lambda>t. [72, 105, 46]) (\<lambda>i t. Clip [5, 5, 5])
      (\<lambda>g a. map (\<lambda>x. x div 16) a) (\<lambda>bed tts. map (\<lambda>(x, y). x + y) (zip bed tts))
      [16, 32, 48, 64, 80, 96, 112, 128, 144, 160]
      (Some \<lparr>duration = 1 / 100, nonsilent_ranges = []\<rparr>) None
      [\<lparr>seg_start = 0, seg_end = 1 / 200, seg_text = [97]\<rparr>]
     = Some [6, 7, 8, 4, 5, 6, 7, 8, 9, 10] \<and>
   apply_prosody_to_audio
      (concat (List.map_filter
         (window_output (\<lambda>t. [72, 105, 46]) (\<lambda>i t. Clip [5, 5, 5])
            [16, 32, 48, 64, 80, 96, 112, 128, 144, 160]
            [\<lparr>seg_start = 0, seg_end = 1 / 200, seg_text = [97]\<rparr>])
         (windows (1 / 100))))
      (Some \<lparr>duration = 1 / 100, nonsilent_ranges = []\<rparr>) None
     = [5, 5, 5, 0, 0, 0, 0, 0, 0, 0]"
proof -
  have fl: "\<lfloor>1 / 3000 :: rat\<rfloor> = 0" by (simp add: floor_eq_iff)
  have w: "windows (1 / 100) = [(0, 1 / 100)]"
    by (simp add: windows_def segment_duration_def estimated_segments_def fl)
  have wo: "window_output (\<lambda>t. [72, 105, 46]) (\<lambda>i t. Clip [5, 5, 5])
            [16, 32, 48, 64, 80, 96, 112, 128, 144, 160]
            [\<lparr>seg_start = 0, seg_end = 1 / 200, seg_text = [97]\<rparr>] (0, 1 / 100) = Some [5, 5, 5]"
    by (simp add: window_output_def extract_audio_segment_def aslice_def
        process_segment_with_correct_timing_def relevant_segments_def timing_step_def
        init_state_def append_silence_def append_clip_def next_start_of_def to_ms_def
        strip_def is_space_def Let_def)
  have pr: "apply_prosody_to_audio [5, 5, 5] (Some \<lparr>duration = 1 / 100, nonsilent_ranges = []\<rparr>) None
      = [5, 5, 5, 0, 0, 0, 0, 0, 0, 0]"
    by (simp add: apply_prosody_to_audio_def force_length_def target_ms_of_def
        add_prosody_pauses_def to_ms_def silent_def numeral_eq_Suc)
  have ev: "translate_long_video_with_optimization (\<lambda>t. [72, 105, 46]) (\<lambda>i t. Clip [5, 5, 5])
      (\<lambda>g a. map (\<lambda>x. x div 16) a) (\<lambda>bed tts. map (\<lambda>(x, y). x + y) (zip bed tts))
      [16, 32, 48, 64, 80, 96, 112, 128, 144, 160]
      (Some \<lparr>duration = 1 / 100, nonsilent_ranges = []\<rparr>) None
      [\<lparr>seg_start = 0, seg_end = 1 / 200, seg_text = [97]\<rparr>]
     = Some [6, 7, 8, 4, 5, 6, 7, 8, 9, 10]"
    by (simp add: translate_long_video_with_optimization_def w wo pr combine_segments_simple_def
        bed_mix_def Let_def)
  from bed_mix_once_after_concatenation [OF ev]
  show ?thesis using ev by (simp add: w wo pr)
qed


end
